theory Spec2Isabelle
  imports Main "HOL-Library.Word"
begin

section \<open>Data model\<close>

text \<open>
  The objects the frontend receives from the REST backend (\<open>src/frontend/src/App.js\<close>).
  Identifiers, roles and status values are JavaScript strings compared with \<open>===\<close>;
  \<open>role_level\<close> is an integer. The fields called \<open>id\<close> in the source are
  \<open>id_user\<close> and \<open>id_task\<close> here, since \<open>id\<close> is the identity function of HOL.
\<close>

record user =
  id_user :: string
  name :: string
  email :: string
  role :: string
  role_level :: int

record task =
  id_task :: string
  title :: string
  description :: string
  status :: string
  priority :: string
  assigned_to :: string
  assigned_by :: string
  due_date :: "string option"

text \<open>
  Free text typed by the user is a JavaScript string, a sequence of UTF-16 code units;
  \<open>String.prototype.trim\<close> works on those.
\<close>

type_synonym code_unit = "16 word"
type_synonym js_text = "code_unit list"

subsection \<open>Replies of the backend\<close>

text \<open>
  The body of an error response is whatever JSON the backend sent, parsed by \<open>axios\<close>:
  \<open>null\<close>, a boolean, a number, a string, an array or an object (its properties in
  order, keys distinct). Numbers are integers here; only whether a number is zero
  matters below.
\<close>

datatype json =
    JNull
  | JBool bool
  | JNumber int
  | JString string
  | JArray "json list"
  | JObject "(string \<times> json) list"

text \<open>
  An \<open>axios\<close> call either resolves with the response body or rejects with an error
  object. Only \<open>error.response?.data?.detail\<close> is read from the error, and each link of
  that chain may be missing: a network failure has no \<open>response\<close>, and a response may
  have no body (\<open>None\<close> stands for \<open>undefined\<close>).
\<close>

record error_response =
  data :: "json option"

record axios_error =
  response :: "error_response option"

datatype 'a reply = Resolved 'a | Rejected axios_error

text \<open>The body of a successful \<open>/auth/login\<close> or \<open>/auth/register\<close> response.\<close>

record auth_data =
  access_token :: string
  userData :: user

section \<open>Role-hierarchy filtering\<close>

text \<open>
  \<open>CreateTaskDialog\<close>, lines 744-747:
  \<^verbatim>\<open>
  const assignableUsers = users.filter(user => {
    if (user.id === currentUser.id) return false;
    return user.role_level <= currentUser.role_level;
  });
  \<close>
\<close>

definition assignableUsers :: "user list \<Rightarrow> user \<Rightarrow> user list" where
  "assignableUsers users currentUser =
     filter (\<lambda>u. if id_user u = id_user currentUser then False
                 else role_level u \<le> role_level currentUser) users"

text \<open>
  \<open>Array.prototype.sort\<close> with a comparator: the sort is stable, and an element \<open>a\<close>
  is placed before \<open>b\<close> when \<open>compareFn(a, b) \<le> 0\<close> keeps them in that order.
  A stable insertion sort computes the same array.
\<close>

fun insertBy :: "('a \<Rightarrow> 'a \<Rightarrow> int) \<Rightarrow> 'a \<Rightarrow> 'a list \<Rightarrow> 'a list" where
  "insertBy compareFn a [] = [a]"
| "insertBy compareFn a (b # bs) =
     (if compareFn a b \<le> 0 then a # b # bs else b # insertBy compareFn a bs)"

definition sortBy :: "('a \<Rightarrow> 'a \<Rightarrow> int) \<Rightarrow> 'a list \<Rightarrow> 'a list" where
  "sortBy compareFn xs = foldr (insertBy compareFn) xs []"

text \<open>
  \<open>Dashboard\<close>, the Team Overview tab, lines 454-457:
  \<^verbatim>\<open>
  users
    .filter(u => u.role_level <= user.role_level)
    .sort((a, b) => b.role_level - a.role_level)
    .map((teamMember) => ...)
  \<close>
  One card is rendered for each element of the sorted array.
\<close>

definition teamOverview :: "user list \<Rightarrow> user \<Rightarrow> user list" where
  "teamOverview users usr =
     sortBy (\<lambda>a b. role_level b - role_level a)
       (filter (\<lambda>u. role_level u \<le> role_level usr) users)"

section \<open>Session manager\<close>

text \<open>
  \<open>AuthProvider\<close> holds the React state \<open>user\<close>, \<open>token\<close> and \<open>loading\<close>; the
  token is also kept in \<open>localStorage\<close> under the key \<open>token\<close> and in the default
  \<open>Authorization\<close> header of \<open>axios\<close>. The four places together are the session
  state; \<open>None\<close> stands for \<open>null\<close>, a removed storage item and a deleted header.
\<close>

record session =
  localStorage_token :: "string option"
  token :: "string option"
  user :: "user option"
  authorization :: "string option"
  loading :: bool

text \<open>The object returned by \<open>login\<close> and \<open>register\<close>: \<open>{ success, error }\<close>.\<close>

record auth_result =
  success :: bool
  error :: "json option"

text \<open>
  \<open>error.response?.data?.detail\<close>: optional chaining stops at a missing \<open>response\<close>
  and at a body that is \<open>undefined\<close> or \<open>null\<close>. On an object, \<open>.detail\<close> is the
  value of that property, or \<open>undefined\<close> when there is none; on a boolean, a number, a
  string or an array it is \<open>undefined\<close>.
\<close>

definition optional_detail :: "axios_error \<Rightarrow> json option" where
  "optional_detail err =
     (case response err of
        None \<Rightarrow> None
      | Some r \<Rightarrow>
          (case data r of
             None \<Rightarrow> None
           | Some JNull \<Rightarrow> None
           | Some (JObject props) \<Rightarrow> map_of props ''detail''
           | Some _ \<Rightarrow> None))"

text \<open>
  JavaScript truthiness: \<open>null\<close>, \<open>false\<close>, \<open>0\<close> and the empty string are falsy;
  every other value is truthy, arrays and objects included, also when empty.
\<close>

fun truthy :: "json \<Rightarrow> bool" where
  "truthy JNull = False"
| "truthy (JBool b) = b"
| "truthy (JNumber n) = (n \<noteq> 0)"
| "truthy (JString s) = (s \<noteq> [])"
| "truthy (JArray vs) = True"
| "truthy (JObject props) = True"

text \<open>
  \<open>a || b\<close>: the left operand when it is truthy, of whatever type, and otherwise the
  right operand. \<open>undefined\<close> is falsy.
\<close>

definition or_else :: "json option \<Rightarrow> json \<Rightarrow> json" where
  "or_else a b = (case a of None \<Rightarrow> b | Some v \<Rightarrow> if truthy v then v else b)"

text \<open>\<open>typeof v === 'string'\<close>.\<close>

fun is_string :: "json \<Rightarrow> bool" where
  "is_string (JString s) = True"
| "is_string v = False"

text \<open>
  Lines 58-72. The first argument is the backend behind
  \<open>axios.post(`${API}/auth/login`, { email, password })\<close>.
\<close>

definition login ::
  "(string \<Rightarrow> string \<Rightarrow> auth_data reply) \<Rightarrow> string \<Rightarrow> string \<Rightarrow> session
     \<Rightarrow> auth_result \<times> session" where
  "login post_login email_in password s =
     (case post_login email_in password of
        Resolved d \<Rightarrow>
          (\<lparr>success = True, error = None\<rparr>,
           s\<lparr>localStorage_token := Some (access_token d),
             token := Some (access_token d),
             user := Some (userData d),
             authorization := Some (''Bearer '' @ access_token d)\<rparr>)
      | Rejected err \<Rightarrow>
          (\<lparr>success = False, error = Some (or_else (optional_detail err) (JString ''Login failed''))\<rparr>,
           s))"

text \<open>
  Lines 74-88. The form data is handed to \<open>axios.post(`${API}/auth/register`, userData)\<close>
  as it is, so its type is left open.
\<close>

definition register ::
  "('form \<Rightarrow> auth_data reply) \<Rightarrow> 'form \<Rightarrow> session \<Rightarrow> auth_result \<times> session" where
  "register post_register form s =
     (case post_register form of
        Resolved d \<Rightarrow>
          (\<lparr>success = True, error = None\<rparr>,
           s\<lparr>localStorage_token := Some (access_token d),
             token := Some (access_token d),
             user := Some (userData d),
             authorization := Some (''Bearer '' @ access_token d)\<rparr>)
      | Rejected err \<Rightarrow>
          (\<lparr>success = False,
            error = Some (or_else (optional_detail err) (JString ''Registration failed''))\<rparr>,
           s))"

text \<open>Lines 90-95.\<close>

definition logout :: "session \<Rightarrow> session" where
  "logout s =
     s\<lparr>localStorage_token := None, token := None, user := None, authorization := None\<rparr>"

text \<open>
  Lines 46-56. The argument is the backend behind \<open>axios.get(`${API}/auth/me`)\<close>, which
  sees the default \<open>Authorization\<close> header. The \<open>finally\<close> block runs on both paths.
\<close>

definition fetchCurrentUser :: "(string option \<Rightarrow> user reply) \<Rightarrow> session \<Rightarrow> session" where
  "fetchCurrentUser get_me s =
     (case get_me (authorization s) of
        Resolved u \<Rightarrow> s\<lparr>user := Some u, loading := False\<rparr>
      | Rejected err \<Rightarrow> (logout s)\<lparr>loading := False\<rparr>)"

section \<open>Task card\<close>

text \<open>
  The local state of one \<open>TaskCard\<close> (lines 549-551). \<open>useState(task.status)\<close> sets
  \<open>newStatus\<close> to the task's status when the card is mounted.
\<close>

record card =
  showComments :: bool
  newComment :: js_text
  newStatus :: string

definition initial_card :: "task \<Rightarrow> card" where
  "initial_card t = \<lparr>showComments = False, newComment = [], newStatus = status t\<rparr>"

text \<open>
  What a handler does to the outside, in order: the requests it issues through
  \<open>axios\<close> (task id and body), the \<open>onTaskUpdated\<close> callback (the refetch of the task
  list) and the messages it logs with \<open>console.error\<close>.
\<close>

datatype effect =
    AxiosPatch string string
  | AxiosPost string js_text
  | OnTaskUpdated
  | ConsoleError string

text \<open>
  The two endpoints a card calls: \<open>PATCH /api/tasks/{id}\<close> with body \<open>{ status }\<close> and
  \<open>POST /api/tasks/{id}/comments\<close> with body \<open>{ text }\<close>.
\<close>

record backend =
  patch_task :: "string \<Rightarrow> string \<Rightarrow> unit reply"
  post_comment :: "string \<Rightarrow> js_text \<Rightarrow> unit reply"

text \<open>Lines 590-599.\<close>

definition handleStatusUpdate :: "backend \<Rightarrow> task \<Rightarrow> card \<Rightarrow> card \<times> effect list" where
  "handleStatusUpdate be t c =
     (if newStatus c = status t then (c, [])
      else (case patch_task be (id_task t) (newStatus c) of
              Resolved _ \<Rightarrow> (c, [AxiosPatch (id_task t) (newStatus c), OnTaskUpdated])
            | Rejected err \<Rightarrow>
                (c, [AxiosPatch (id_task t) (newStatus c),
                     ConsoleError ''Failed to update task status:''])))"

text \<open>
  \<open>String.prototype.trim\<close> removes the ECMAScript white space and line terminator code
  points from both ends: TAB, LF, VT, FF, CR, SPACE, NBSP, U+1680, U+2000 to U+200A,
  U+2028, U+2029, U+202F, U+205F, U+3000 and U+FEFF. All of them are single code units.
\<close>

definition isWhiteSpace :: "code_unit \<Rightarrow> bool" where
  "isWhiteSpace u \<longleftrightarrow>
     u = 0x09 \<or> u = 0x0A \<or> u = 0x0B \<or> u = 0x0C \<or> u = 0x0D \<or> u = 0x20 \<or> u = 0xA0
     \<or> u = 0x1680 \<or> (0x2000 \<le> u \<and> u \<le> 0x200A) \<or> u = 0x2028 \<or> u = 0x2029
     \<or> u = 0x202F \<or> u = 0x205F \<or> u = 0x3000 \<or> u = 0xFEFF"

definition trim :: "js_text \<Rightarrow> js_text" where
  "trim s = rev (dropWhile isWhiteSpace (rev (dropWhile isWhiteSpace s)))"

text \<open>Lines 601-611. The text posted is \<open>newComment\<close> itself, not its trimmed form.\<close>

definition handleAddComment :: "backend \<Rightarrow> task \<Rightarrow> card \<Rightarrow> card \<times> effect list" where
  "handleAddComment be t c =
     (if trim (newComment c) = [] then (c, [])
      else (case post_comment be (id_task t) (newComment c) of
              Resolved _ \<Rightarrow>
                (c\<lparr>newComment := []\<rparr>, [AxiosPost (id_task t) (newComment c), OnTaskUpdated])
            | Rejected err \<Rightarrow>
                (c, [AxiosPost (id_task t) (newComment c),
                     ConsoleError ''Failed to add comment:''])))"

subsection \<open>What the card renders\<close>

text \<open>
  Lines 651-656: \<open>{task.due_date && (<div> ... Due: {format(new Date(task.due_date),
  'MMM dd, yyyy')} </div>)}\<close>. A \<open>null\<close> or empty \<open>due_date\<close> is falsy and nothing is
  rendered. \<open>format\<close> belongs to the \<open>date-fns\<close> library and is a parameter here:
  \<open>format_date d\<close> is the formatted text of the date string \<open>d\<close>, or \<open>None\<close> when
  \<open>d\<close> is not a date and the library throws a \<open>RangeError\<close>.
\<close>

datatype thrown = RangeError

definition dueDateIndicator ::
  "(string \<Rightarrow> string option) \<Rightarrow> task \<Rightarrow> thrown + string option" where
  "dueDateIndicator format_date t =
     (case due_date t of
        None \<Rightarrow> Inr None
      | Some d \<Rightarrow>
          if d = [] then Inr None
          else (case format_date d of
                  None \<Rightarrow> Inl RangeError
                | Some txt \<Rightarrow> Inr (Some (''Due: '' @ txt))))"

text \<open>
  Lines 660-679: the status control is rendered under
  \<open>task.assigned_to === currentUser.id\<close>; inside it, the Update button is rendered under
  \<open>newStatus !== task.status\<close>.
\<close>

record status_control =
  select_value :: string
  select_items :: "string list"
  update_button :: bool

definition statusUpdate :: "task \<Rightarrow> user \<Rightarrow> card \<Rightarrow> status_control option" where
  "statusUpdate t currentUser c =
     (if assigned_to t = id_user currentUser
      then Some \<lparr>select_value = newStatus c,
                 select_items = [''assigned'', ''in_progress'', ''completed''],
                 update_button = (newStatus c \<noteq> status t)\<rparr>
      else None)"

text \<open>Line 718: \<open><Button onClick={handleAddComment} disabled={!newComment.trim()}>\<close>.\<close>

definition addDisabled :: "card \<Rightarrow> bool" where
  "addDisabled c \<longleftrightarrow> trim (newComment c) = []"

subsection \<open>Events\<close>

text \<open>
  The user acts on a card only through the elements it renders. An event on an element
  that is not rendered, or on a disabled button, cannot happen: \<open>dispatch\<close> is \<open>None\<close>.
  \<^item> \<open>SelectStatus v\<close>: \<open>onValueChange={setNewStatus}\<close> with the value of a select item;
  \<^item> \<open>ClickUpdate\<close>: \<open>onClick={handleStatusUpdate}\<close> on the Update button;
  \<^item> \<open>ToggleComments\<close>: \<open>onClick={() => setShowComments(!showComments)}\<close>;
  \<^item> \<open>ChangeComment v\<close>: \<open>onChange\<close> of the text area, shown with the comments;
  \<^item> \<open>ClickAdd\<close>: \<open>onClick={handleAddComment}\<close> on the Add button.
\<close>

datatype event =
    SelectStatus string
  | ClickUpdate
  | ToggleComments
  | ChangeComment js_text
  | ClickAdd

fun dispatch :: "backend \<Rightarrow> task \<Rightarrow> user \<Rightarrow> card \<Rightarrow> event \<Rightarrow> (card \<times> effect list) option" where
  "dispatch be t currentUser c (SelectStatus v) =
     (case statusUpdate t currentUser c of
        None \<Rightarrow> None
      | Some ctl \<Rightarrow> if v \<in> set (select_items ctl) then Some (c\<lparr>newStatus := v\<rparr>, []) else None)"
| "dispatch be t currentUser c ClickUpdate =
     (case statusUpdate t currentUser c of
        None \<Rightarrow> None
      | Some ctl \<Rightarrow> if update_button ctl then Some (handleStatusUpdate be t c) else None)"
| "dispatch be t currentUser c ToggleComments =
     Some (c\<lparr>showComments := \<not> showComments c\<rparr>, [])"
| "dispatch be t currentUser c (ChangeComment v) =
     (if showComments c then Some (c\<lparr>newComment := v\<rparr>, []) else None)"
| "dispatch be t currentUser c ClickAdd =
     (if showComments c \<and> \<not> addDisabled c then Some (handleAddComment be t c) else None)"

text \<open>
  A session with one card: each event comes with the backend as it answers at that
  moment. Events that cannot happen are skipped; the effects are collected in order.
\<close>

fun run :: "task \<Rightarrow> user \<Rightarrow> card \<Rightarrow> (backend \<times> event) list \<Rightarrow> card \<times> effect list" where
  "run t currentUser c [] = (c, [])"
| "run t currentUser c ((be, ev) # rest) =
     (case dispatch be t currentUser c ev of
        None \<Rightarrow> run t currentUser c rest
      | Some (c', effs) \<Rightarrow>
          (case run t currentUser c' rest of (c'', effs') \<Rightarrow> (c'', effs @ effs')))"

text \<open>The \<open>PATCH\<close> requests among the effects: task id and the \<open>status\<close> of the body.\<close>

fun patches :: "effect list \<Rightarrow> (string \<times> string) list" where
  "patches [] = []"
| "patches (AxiosPatch i v # es) = (i, v) # patches es"
| "patches (e # es) = patches es"

subsection \<open>Sample roster\<close>

definition userA :: user where
  "userA = \<lparr>id_user = ''u-a'', name = ''A'', email = ''a@example.com'',
            role = ''developer'', role_level = 5\<rparr>"

definition userB :: user where
  "userB = \<lparr>id_user = ''u-b'', name = ''B'', email = ''b@example.com'',
            role = ''manager'', role_level = 8\<rparr>"

definition userC :: user where
  "userC = \<lparr>id_user = ''u-c'', name = ''C'', email = ''c@example.com'',
            role = ''intern'', role_level = 1\<rparr>"

subsection \<open>Sample sessions and replies\<close>

definition session0 :: session where
  "session0 = \<lparr>localStorage_token = Some ''old'', token = Some ''old'', user = Some userA,
               authorization = Some ''Bearer old'', loading = True\<rparr>"

text \<open>An error response whose body is \<open>{"detail": d}\<close> for a string \<open>d\<close>.\<close>

definition with_detail :: "string \<Rightarrow> axios_error" where
  "with_detail d = \<lparr>response = Some \<lparr>data = Some (JObject [(''detail'', JString d)])\<rparr>\<rparr>"

text \<open>
  The response to a request whose body fails validation (status 422): the \<open>detail\<close> is
  a list with one object for each invalid field.
\<close>

definition validation_detail :: json where
  "validation_detail =
     JArray [JObject [(''loc'', JArray [JString ''body'', JString ''email'']),
                      (''msg'', JString ''value is not a valid email address''),
                      (''type'', JString ''value_error.email'')]]"

definition validation_error :: axios_error where
  "validation_error = \<lparr>response = Some \<lparr>data = Some (JObject [(''detail'', validation_detail)])\<rparr>\<rparr>"

definition network_error :: axios_error where
  "network_error = \<lparr>response = None\<rparr>"

definition auth1 :: auth_data where
  "auth1 = \<lparr>access_token = ''tok'', userData = userC\<rparr>"

subsection \<open>Sample tasks, backends and texts\<close>

definition task1 :: task where
  "task1 = \<lparr>id_task = ''t-1'', title = ''Report'', description = ''Write the report'',
            status = ''in_progress'', priority = ''medium'', assigned_to = ''u-a'',
            assigned_by = ''u-b'', due_date = None\<rparr>"

definition task2 :: task where
  "task2 = \<lparr>id_task = ''t-2'', title = ''Review'', description = ''Review the report'',
            status = ''completed'', priority = ''high'', assigned_to = ''u-a'',
            assigned_by = ''u-b'', due_date = Some ''2024-03-01T00:00:00''\<rparr>"

definition accepting :: backend where
  "accepting = \<lparr>patch_task = (\<lambda>i v. Resolved ()), post_comment = (\<lambda>i v. Resolved ())\<rparr>"

definition failing :: backend where
  "failing = \<lparr>patch_task = (\<lambda>i v. Rejected network_error),
              post_comment = (\<lambda>i v. Rejected network_error)\<rparr>"

text \<open>The text \<open>hi\<close>, and a text of SPACE, TAB, NBSP and EM SPACE only.\<close>

definition hi :: js_text where
  "hi = [0x68, 0x69]"

definition blank :: js_text where
  "blank = [0x20, 0x09, 0xA0, 0x2003]"

section \<open>Properties of the role-hierarchy filter\<close>

lemma set_insertBy: "set (insertBy compareFn a bs) = insert a (set bs)"
  by (induction bs) auto

lemma set_sortBy: "set (sortBy compareFn xs) = set xs"
  by (induction xs) (simp_all add: sortBy_def set_insertBy)

text \<open>
  Claim C1. For every roster and every acting user \<open>U\<close>, the assignment candidate list
  is the roster restricted, in roster order, to the members whose \<open>role_level\<close> is at
  most \<open>U\<close>'s and whose id differs from \<open>U\<close>'s. So it never contains \<open>U\<close> and never
  contains a user ranked above \<open>U\<close>.
\<close>

theorem assignableUsers_exact:
  "assignableUsers users U =
     filter (\<lambda>u. role_level u \<le> role_level U \<and> id_user u \<noteq> id_user U) users
   \<and> (u \<in> set (assignableUsers users U) \<longleftrightarrow>
        u \<in> set users \<and> role_level u \<le> role_level U \<and> id_user u \<noteq> id_user U)
   \<and> U \<notin> set (assignableUsers users U)
   \<and> \<not> (u \<in> set (assignableUsers users U) \<and> role_level u > role_level U)"
proof -
  have eq: "assignableUsers users U =
      filter (\<lambda>u. role_level u \<le> role_level U \<and> id_user u \<noteq> id_user U) users"
    unfolding assignableUsers_def by (rule filter_cong) auto
  show ?thesis
    unfolding eq by auto
qed

theorem assignableUsers_exact_witness:
  "assignableUsers [userA, userB, userC] userA = [userC]
   \<and> userA \<notin> set (assignableUsers [userA, userB, userC] userA)
   \<and> \<not> (userB \<in> set (assignableUsers [userA, userB, userC] userA)
         \<and> role_level userB > role_level userA)"
  using assignableUsers_exact [of "[userA, userB, userC]" userA userB]
  by (simp add: userA_def userB_def userC_def)

lemma teamOverview_set:
  "set (teamOverview users U) = {u \<in> set users. role_level u \<le> role_level U}"
  by (simp add: teamOverview_def set_sortBy)

lemma assignableUsers_set:
  "set (assignableUsers users U) =
     {u \<in> set users. role_level u \<le> role_level U \<and> id_user u \<noteq> id_user U}"
  by (auto simp: assignableUsers_def)

lemma sorted_insertBy:
  "sorted_wrt (\<lambda>a b. role_level b \<le> role_level a) bs \<Longrightarrow>
   sorted_wrt (\<lambda>a b. role_level b \<le> role_level a)
     (insertBy (\<lambda>a b. role_level b - role_level a) x bs)"
  by (induction bs) (auto simp: set_insertBy)

text \<open>The cards of the Team Overview tab are listed by non-increasing \<open>role_level\<close>.\<close>

lemma teamOverview_descending:
  "sorted_wrt (\<lambda>a b. role_level b \<le> role_level a) (teamOverview users U)"
  unfolding teamOverview_def sortBy_def
  by (induction users) (auto simp: sorted_insertBy)

text \<open>
  Claim C2, as the code has it. The Team Overview tab shows exactly the roster members
  whose \<open>role_level\<close> is at most \<open>U\<close>'s, so no user ranked above \<open>U\<close>. Its filter has
  no test on the id: \<open>U\<close> is shown whenever \<open>U\<close> is in the roster, and the assignment
  candidate list is the Team Overview without the users carrying \<open>U\<close>'s id.
\<close>

theorem teamOverview_members:
  "(u \<in> set (teamOverview users U) \<longleftrightarrow> u \<in> set users \<and> role_level u \<le> role_level U)
   \<and> \<not> (u \<in> set (teamOverview users U) \<and> role_level u > role_level U)
   \<and> (U \<in> set (teamOverview users U) \<longleftrightarrow> U \<in> set users)
   \<and> set (assignableUsers users U) =
        {v \<in> set (teamOverview users U). id_user v \<noteq> id_user U}"
  by (auto simp: teamOverview_set assignableUsers_set)

theorem teamOverview_members_witness:
  "userC \<in> set (teamOverview [userA, userB, userC] userA)
   \<and> userB \<notin> set (teamOverview [userA, userB, userC] userA)
   \<and> userA \<in> set (teamOverview [userA, userB, userC] userA)"
  using teamOverview_members [of userC "[userA, userB, userC]" userA]
    teamOverview_members [of userB "[userA, userB, userC]" userA]
  by (simp add: userA_def userB_def userC_def)

text \<open>
  Claim C2, as stated, fails: with the roster \<open>A\<close> (level 5), \<open>B\<close> (level 8), \<open>C\<close>
  (level 1) and \<open>A\<close> logged in, the Team Overview lists \<open>A\<close> itself, before \<open>C\<close>.
\<close>

theorem teamOverview_shows_self:
  "teamOverview [userA, userB, userC] userA = [userA, userC]
   \<and> userA \<in> set (teamOverview [userA, userB, userC] userA)"
  by (simp add: teamOverview_def sortBy_def userA_def userB_def userC_def)

section \<open>Properties of the task card\<close>

subsection \<open>Comments\<close>

lemma dropWhile_all_iff: "(\<forall>x\<in>set (dropWhile P xs). P x) \<longleftrightarrow> (\<forall>x\<in>set xs. P x)"
  by (induction xs) auto

lemma trim_Nil_iff: "trim s = [] \<longleftrightarrow> (\<forall>u\<in>set s. isWhiteSpace u)"
  by (simp add: trim_def dropWhile_eq_Nil_conv dropWhile_all_iff)

text \<open>
  Claim C3, as the code has it. When the trimmed text is empty (the text is empty or
  consists of white space only), \<open>handleAddComment\<close> does nothing: no request, the
  input is kept, no refetch. Otherwise it posts the text; when the request succeeds it
  clears the input and triggers the refetch; when the request fails it logs the error,
  keeps the input and triggers no refetch.
\<close>

theorem handleAddComment_cases:
  "(trim (newComment c) = [] \<longrightarrow> handleAddComment be t c = (c, []))
   \<and> (trim (newComment c) \<noteq> [] \<and> post_comment be (id_task t) (newComment c) = Resolved ()
        \<longrightarrow> handleAddComment be t c =
              (c\<lparr>newComment := []\<rparr>, [AxiosPost (id_task t) (newComment c), OnTaskUpdated]))
   \<and> (trim (newComment c) \<noteq> [] \<and> post_comment be (id_task t) (newComment c) = Rejected err
        \<longrightarrow> handleAddComment be t c =
              (c, [AxiosPost (id_task t) (newComment c), ConsoleError ''Failed to add comment:'']))
   \<and> (trim (newComment c) = [] \<longleftrightarrow> (\<forall>u\<in>set (newComment c). isWhiteSpace u))"
  by (simp add: handleAddComment_def trim_Nil_iff)

lemma trim_hi: "trim hi = hi"
  by (simp add: trim_def hi_def isWhiteSpace_def)

lemma hi_nonempty: "hi \<noteq> []"
  by (simp add: hi_def)

lemma trim_blank: "trim blank = []"
  by (simp add: trim_def blank_def isWhiteSpace_def)

theorem handleAddComment_cases_witness:
  "handleAddComment accepting task1 \<lparr>showComments = True, newComment = blank, newStatus = ''in_progress''\<rparr>
     = (\<lparr>showComments = True, newComment = blank, newStatus = ''in_progress''\<rparr>, [])
   \<and> handleAddComment accepting task1 \<lparr>showComments = True, newComment = hi, newStatus = ''in_progress''\<rparr>
     = (\<lparr>showComments = True, newComment = [], newStatus = ''in_progress''\<rparr>,
        [AxiosPost ''t-1'' hi, OnTaskUpdated])
   \<and> handleAddComment failing task1 \<lparr>showComments = True, newComment = hi, newStatus = ''in_progress''\<rparr>
     = (\<lparr>showComments = True, newComment = hi, newStatus = ''in_progress''\<rparr>,
        [AxiosPost ''t-1'' hi, ConsoleError ''Failed to add comment:''])"
  using
    handleAddComment_cases [of "\<lparr>showComments = True, newComment = blank, newStatus = ''in_progress''\<rparr>"
      accepting task1 network_error]
    handleAddComment_cases [of "\<lparr>showComments = True, newComment = hi, newStatus = ''in_progress''\<rparr>"
      accepting task1 network_error]
    handleAddComment_cases [of "\<lparr>showComments = True, newComment = hi, newStatus = ''in_progress''\<rparr>"
      failing task1 network_error]
  by (simp add: trim_hi trim_blank hi_nonempty accepting_def failing_def task1_def)

text \<open>
  Claim C3, as stated, fails: the text \<open>hi\<close> has a non-empty trimmed form, and when the
  backend rejects the request the input still holds \<open>hi\<close> and no refetch is triggered.
\<close>

theorem failed_comment_not_cleared:
  "trim hi \<noteq> []
   \<and> newComment (fst (handleAddComment failing task1
        \<lparr>showComments = True, newComment = hi, newStatus = ''in_progress''\<rparr>)) = hi
   \<and> OnTaskUpdated \<notin> set (snd (handleAddComment failing task1
        \<lparr>showComments = True, newComment = hi, newStatus = ''in_progress''\<rparr>))"
  by (simp add: handleAddComment_def trim_hi hi_nonempty failing_def task1_def)

subsection \<open>Status updates\<close>

lemma handleAddComment_no_patch: "AxiosPatch i v \<notin> set (snd (handleAddComment be t c))"
  by (simp add: handleAddComment_def split: reply.splits)

lemma dispatch_patch_assignee:
  "dispatch be t cu c ev = Some (c', effs) \<Longrightarrow> AxiosPatch i v \<in> set effs \<Longrightarrow>
   assigned_to t = id_user cu"
proof (cases ev)
  case ClickAdd
  assume "dispatch be t cu c ev = Some (c', effs)" "AxiosPatch i v \<in> set effs"
  with ClickAdd handleAddComment_no_patch [of i v be t c] show ?thesis
    by (auto split: if_splits)
qed (auto simp: statusUpdate_def split: if_splits option.splits)

lemma run_patch_assignee:
  "AxiosPatch i v \<in> set (snd (run t cu c evs)) \<Longrightarrow> assigned_to t = id_user cu"
proof (induction evs arbitrary: c)
  case Nil
  then show ?case by simp
next
  case (Cons bev evs)
  obtain be ev where bev: "bev = (be, ev)" by (cases bev)
  show ?case
  proof (cases "dispatch be t cu c ev")
    case None
    with Cons bev show ?thesis by simp
  next
    case (Some r)
    obtain c' effs where r: "r = (c', effs)" by (cases r)
    obtain c'' effs' where rest: "run t cu c' evs = (c'', effs')" by (cases "run t cu c' evs")
    from Cons.prems bev Some r rest have "AxiosPatch i v \<in> set effs \<or> AxiosPatch i v \<in> set effs'"
      by simp
    then show ?thesis
    proof
      assume "AxiosPatch i v \<in> set effs"
      with Some r show ?thesis by (auto dest: dispatch_patch_assignee)
    next
      assume "AxiosPatch i v \<in> set effs'"
      with rest Cons.IH [of c'] show ?thesis by simp
    qed
  qed
qed

text \<open>
  Claim C4. The status control of a card is rendered exactly when the task's
  \<open>assigned_to\<close> is the current user's id, the Update button can be clicked only then,
  and whatever the user does with the card, in any state and with any backend, a
  \<open>PATCH\<close> request is issued only when \<open>assigned_to\<close> is the current user's id.
\<close>

theorem status_patch_only_by_assignee:
  "(statusUpdate t cu c \<noteq> None \<longleftrightarrow> assigned_to t = id_user cu)
   \<and> (dispatch be t cu c ClickUpdate \<noteq> None \<longrightarrow> assigned_to t = id_user cu)
   \<and> (AxiosPatch i v \<in> set (snd (run t cu c evs)) \<longrightarrow> assigned_to t = id_user cu)"
  using run_patch_assignee [of i v t cu c evs]
  by (auto simp: statusUpdate_def split: if_splits option.splits)

theorem status_patch_only_by_assignee_witness:
  "AxiosPatch ''t-1'' ''completed'' \<in> set (snd (run task1 userA (initial_card task1)
        [(accepting, SelectStatus ''completed''), (accepting, ClickUpdate)]))
   \<and> assigned_to task1 = id_user userA
   \<and> statusUpdate task1 userA (initial_card task1) \<noteq> None
   \<and> statusUpdate task1 userB (initial_card task1) = None"
  using status_patch_only_by_assignee [of task1 userA "initial_card task1" accepting
      "''t-1''" "''completed''" "[(accepting, SelectStatus ''completed''), (accepting, ClickUpdate)]"]
    status_patch_only_by_assignee [of task1 userB "initial_card task1" accepting
      "''t-1''" "''completed''" "[]"]
  by (simp add: task1_def userA_def userB_def initial_card_def accepting_def statusUpdate_def
      handleStatusUpdate_def)

lemma patches_handleStatusUpdate:
  "patches (snd (handleStatusUpdate be t c)) =
     (if newStatus c = status t then [] else [(id_task t, newStatus c)])"
  by (simp add: handleStatusUpdate_def split: reply.splits)

text \<open>
  Claim C5, as the code has it. No forward-only order is enforced: for every current
  status and every selected value that differs from it, \<open>handleStatusUpdate\<close> sends
  exactly one \<open>PATCH\<close> request, for this task and with the selected value as it is;
  so does a click on the Update button; and from any current status the assignee can
  select any other of the three values and send it. When the selected value equals the
  current status, nothing is sent.
\<close>

theorem status_sent_as_selected:
  "(newStatus c \<noteq> status t \<longrightarrow>
      patches (snd (handleStatusUpdate be t c)) = [(id_task t, newStatus c)])
   \<and> (newStatus c = status t \<longrightarrow> patches (snd (handleStatusUpdate be t c)) = [])
   \<and> (dispatch be t cu c ClickUpdate = Some (c', effs) \<longrightarrow>
        patches effs = [(id_task t, newStatus c)])
   \<and> (assigned_to t = id_user cu \<and> v \<in> set [''assigned'', ''in_progress'', ''completed'']
        \<and> v \<noteq> status t \<longrightarrow>
        patches (snd (run t cu (initial_card t) [(be, SelectStatus v), (be', ClickUpdate)]))
          = [(id_task t, v)])"
proof -
  have click: "dispatch be t cu c ClickUpdate = Some (c', effs) \<longrightarrow>
      patches effs = [(id_task t, newStatus c)]"
    using patches_handleStatusUpdate [of be t c]
    by (auto simp: statusUpdate_def split: if_splits)
  have sel: "assigned_to t = id_user cu \<and> v \<in> set [''assigned'', ''in_progress'', ''completed'']
        \<and> v \<noteq> status t \<longrightarrow>
        patches (snd (run t cu (initial_card t) [(be, SelectStatus v), (be', ClickUpdate)]))
          = [(id_task t, v)]"
  proof
    assume a: "assigned_to t = id_user cu \<and> v \<in> set [''assigned'', ''in_progress'', ''completed'']
        \<and> v \<noteq> status t"
    let ?c = "(initial_card t)\<lparr>newStatus := v\<rparr>"
    from a have d1: "dispatch be t cu (initial_card t) (SelectStatus v) = Some (?c, [])"
      by (simp add: statusUpdate_def)
    from a have d2: "dispatch be' t cu ?c ClickUpdate = Some (handleStatusUpdate be' t ?c)"
      by (simp add: statusUpdate_def)
    obtain c2 effs2 where h: "handleStatusUpdate be' t ?c = (c2, effs2)"
      by (cases "handleStatusUpdate be' t ?c")
    from a patches_handleStatusUpdate [of be' t ?c] h have "patches effs2 = [(id_task t, v)]"
      by simp
    with d1 d2 h show "patches (snd (run t cu (initial_card t)
        [(be, SelectStatus v), (be', ClickUpdate)])) = [(id_task t, v)]"
      by simp
  qed
  from click sel show ?thesis
    by (simp add: patches_handleStatusUpdate)
qed

theorem status_sent_as_selected_witness:
  "patches (snd (run task2 userA (initial_card task2)
       [(accepting, SelectStatus ''assigned''), (failing, ClickUpdate)])) = [(''t-2'', ''assigned'')]
   \<and> patches (snd (handleStatusUpdate accepting task2 ((initial_card task2)\<lparr>newStatus := ''in_progress''\<rparr>)))
       = [(''t-2'', ''in_progress'')]
   \<and> patches (snd (handleStatusUpdate accepting task2 (initial_card task2))) = []"
  using status_sent_as_selected [where c = "(initial_card task2)\<lparr>newStatus := ''in_progress''\<rparr>"
      and t = task2 and be = accepting and cu = userA
      and c' = "(initial_card task2)\<lparr>newStatus := ''in_progress''\<rparr>"
      and effs = "[AxiosPatch ''t-2'' ''in_progress'', OnTaskUpdated]"
      and v = "''assigned''" and be' = failing]
    status_sent_as_selected [where c = "initial_card task2" and t = task2 and be = accepting
      and cu = userA and c' = "initial_card task2" and effs = "[]" and v = "''assigned''"
      and be' = failing]
  by (simp add: task2_def userA_def initial_card_def accepting_def failing_def
      statusUpdate_def handleStatusUpdate_def)

text \<open>
  Claim C5, as stated, fails: \<open>in_progress\<close> is selectable for a task that is
  \<open>in_progress\<close>, and \<open>handleStatusUpdate\<close> then sends nothing.
\<close>

theorem same_status_not_sent:
  "status task1 = ''in_progress''
   \<and> statusUpdate task1 userA (initial_card task1) =
       Some \<lparr>select_value = ''in_progress'',
             select_items = [''assigned'', ''in_progress'', ''completed''],
             update_button = False\<rparr>
   \<and> handleStatusUpdate accepting task1 ((initial_card task1)\<lparr>newStatus := ''in_progress''\<rparr>)
       = (initial_card task1, [])"
  by (simp add: task1_def userA_def initial_card_def statusUpdate_def handleStatusUpdate_def)

text \<open>
  Claim C9. When the selected status equals the task's status, \<open>handleStatusUpdate\<close>
  returns at once: no request, no refetch, the card unchanged. The Update button is
  rendered exactly when the control is rendered and the selected status differs from the
  task's, so it cannot be clicked when they are equal.
\<close>

theorem same_status_noop:
  "(newStatus c = status t \<longrightarrow> handleStatusUpdate be t c = (c, []))
   \<and> ((\<exists>ctl. statusUpdate t cu c = Some ctl \<and> update_button ctl) \<longleftrightarrow>
        assigned_to t = id_user cu \<and> newStatus c \<noteq> status t)
   \<and> (newStatus c = status t \<longrightarrow> dispatch be t cu c ClickUpdate = None)"
  by (auto simp: handleStatusUpdate_def statusUpdate_def)

theorem same_status_noop_witness:
  "handleStatusUpdate accepting task1 (initial_card task1) = (initial_card task1, [])
   \<and> dispatch accepting task1 userA (initial_card task1) ClickUpdate = None
   \<and> (\<exists>ctl. statusUpdate task1 userA ((initial_card task1)\<lparr>newStatus := ''completed''\<rparr>) = Some ctl
         \<and> update_button ctl)"
  using same_status_noop [of "initial_card task1" task1 accepting userA]
    same_status_noop [of "(initial_card task1)\<lparr>newStatus := ''completed''\<rparr>" task1 accepting userA]
  by (simp add: task1_def userA_def initial_card_def)

subsection \<open>Due date\<close>

text \<open>
  Claim C8. A task whose \<open>due_date\<close> is \<open>null\<close> renders no due-date element; a task
  whose \<open>due_date\<close> is set to a date renders \<open>Due:\<close> followed by the formatted date;
  and a due-date element is rendered only when \<open>due_date\<close> is set.
\<close>

theorem dueDateIndicator_iff:
  "(due_date t = None \<longrightarrow> dueDateIndicator format_date t = Inr None)
   \<and> (due_date t = Some d \<and> d \<noteq> [] \<and> format_date d = Some txt \<longrightarrow>
        dueDateIndicator format_date t = Inr (Some (''Due: '' @ txt)))
   \<and> ((\<exists>x. dueDateIndicator format_date t = Inr (Some x)) \<longrightarrow>
        (\<exists>d. due_date t = Some d \<and> d \<noteq> []))"
  by (auto simp: dueDateIndicator_def split: option.splits if_splits)

theorem dueDateIndicator_iff_witness:
  "dueDateIndicator (\<lambda>d. if d = ''2024-03-01T00:00:00'' then Some ''Mar 01, 2024'' else None) task1
     = Inr None
   \<and> dueDateIndicator (\<lambda>d. if d = ''2024-03-01T00:00:00'' then Some ''Mar 01, 2024'' else None) task2
     = Inr (Some ''Due: Mar 01, 2024'')"
  using dueDateIndicator_iff [of task1 "\<lambda>d. if d = ''2024-03-01T00:00:00'' then Some ''Mar 01, 2024'' else None"
      "''2024-03-01T00:00:00''" "''Mar 01, 2024''"]
    dueDateIndicator_iff [of task2 "\<lambda>d. if d = ''2024-03-01T00:00:00'' then Some ''Mar 01, 2024'' else None"
      "''2024-03-01T00:00:00''" "''Mar 01, 2024''"]
  by (simp add: task1_def task2_def)

section \<open>Properties of the session manager\<close>

lemma optional_detail_Some_iff:
  "optional_detail err = Some v \<longleftrightarrow>
     (\<exists>r props. response err = Some r \<and> data r = Some (JObject props)
        \<and> map_of props ''detail'' = Some v)"
  by (auto simp: optional_detail_def split: option.splits json.splits)

text \<open>
  What \<open>login\<close> and \<open>register\<close> return. A resolved call gives \<open>success\<close> true. A
  rejected call gives \<open>success\<close> false, and as \<open>error\<close>: the detail when it is a
  non-empty string; the fallback when there is no detail or the detail is falsy; and
  the detail itself, unchanged, when it is any other truthy value.
\<close>

lemma login_result:
  "(post_login e p = Resolved d \<longrightarrow>
      fst (login post_login e p s) = \<lparr>success = True, error = None\<rparr>)
   \<and> (post_login e p = Rejected err \<and> optional_detail err = Some (JString m) \<and> m \<noteq> [] \<longrightarrow>
        fst (login post_login e p s) = \<lparr>success = False, error = Some (JString m)\<rparr>)
   \<and> (post_login e p = Rejected err \<and> optional_detail err = None \<longrightarrow>
        fst (login post_login e p s) =
          \<lparr>success = False, error = Some (JString ''Login failed'')\<rparr>)
   \<and> (post_login e p = Rejected err \<and> optional_detail err = Some v \<and> \<not> truthy v \<longrightarrow>
        fst (login post_login e p s) =
          \<lparr>success = False, error = Some (JString ''Login failed'')\<rparr>)
   \<and> (post_login e p = Rejected err \<and> optional_detail err = Some v \<and> truthy v \<longrightarrow>
        fst (login post_login e p s) = \<lparr>success = False, error = Some v\<rparr>)"
  by (auto simp: login_def or_else_def)

lemma register_result:
  "(post_register form = Resolved d \<longrightarrow>
      fst (register post_register form s) = \<lparr>success = True, error = None\<rparr>)
   \<and> (post_register form = Rejected err \<and> optional_detail err = Some (JString m) \<and> m \<noteq> []
        \<longrightarrow> fst (register post_register form s) =
              \<lparr>success = False, error = Some (JString m)\<rparr>)
   \<and> (post_register form = Rejected err \<and> optional_detail err = None \<longrightarrow>
        fst (register post_register form s) =
          \<lparr>success = False, error = Some (JString ''Registration failed'')\<rparr>)
   \<and> (post_register form = Rejected err \<and> optional_detail err = Some v \<and> \<not> truthy v \<longrightarrow>
        fst (register post_register form s) =
          \<lparr>success = False, error = Some (JString ''Registration failed'')\<rparr>)
   \<and> (post_register form = Rejected err \<and> optional_detail err = Some v \<and> truthy v \<longrightarrow>
        fst (register post_register form s) = \<lparr>success = False, error = Some v\<rparr>)"
  by (auto simp: register_def or_else_def)

lemma login_result_examples:
  "fst (login (\<lambda>e p. Rejected (with_detail ''Invalid credentials'')) ''a@example.com'' ''pw''
        session0) = \<lparr>success = False, error = Some (JString ''Invalid credentials'')\<rparr>
   \<and> fst (login (\<lambda>e p. Rejected network_error) ''a@example.com'' ''pw'' session0)
       = \<lparr>success = False, error = Some (JString ''Login failed'')\<rparr>
   \<and> fst (login (\<lambda>e p. Rejected (with_detail [])) ''a@example.com'' ''pw'' session0)
       = \<lparr>success = False, error = Some (JString ''Login failed'')\<rparr>
   \<and> fst (login (\<lambda>e p. Resolved auth1) ''a@example.com'' ''pw'' session0)
       = \<lparr>success = True, error = None\<rparr>"
  by (simp add: login_def or_else_def optional_detail_def with_detail_def network_error_def)

text \<open>
  Claim C6 does not hold of the code for every failing call: \<open>||\<close> tests the detail for
  truthiness only, not for being a string. When the backend rejects a login or a
  registration with a validation error, whose detail is a list of objects, the result
  has \<open>success\<close> false and that list as \<open>error\<close>: not a string, so neither a detail
  string nor the fallback message. The forms keep \<open>error\<close> in a state initialised with
  the empty string and render it as the text of an element (lines 107, 118, 154-155
  and 182, 204, 269-270).
\<close>

theorem auth_error_not_a_message:
  "fst (login (\<lambda>e p. Rejected validation_error) ''not-an-email'' ''pw'' session0)
     = \<lparr>success = False, error = Some validation_detail\<rparr>
   \<and> fst (register (\<lambda>f. Rejected validation_error)
          (''A'', ''not-an-email'', ''pw'', ''developer'') session0)
     = \<lparr>success = False, error = Some validation_detail\<rparr>
   \<and> \<not> is_string validation_detail
   \<and> validation_detail \<noteq> JString ''Login failed''
   \<and> validation_detail \<noteq> JString ''Registration failed''"
  by (simp add: login_def register_def or_else_def optional_detail_def validation_error_def
      validation_detail_def)

text \<open>
  Claim C7. When \<open>GET /auth/me\<close> fails, \<open>fetchCurrentUser\<close> leaves the session as
  \<open>logout\<close> does (and ends the loading phase), and \<open>logout\<close> removes the stored
  token, sets \<open>token\<close> and \<open>user\<close> to \<open>null\<close> and deletes the default
  \<open>Authorization\<close> header.
\<close>

theorem failed_me_logs_out:
  "(get_me (authorization s) = Rejected err \<longrightarrow>
      fetchCurrentUser get_me s = (logout s)\<lparr>loading := False\<rparr>)
   \<and> localStorage_token (logout s) = None \<and> token (logout s) = None
   \<and> user (logout s) = None \<and> authorization (logout s) = None
   \<and> (get_me (authorization s) = Rejected err \<longrightarrow>
        localStorage_token (fetchCurrentUser get_me s) = None
        \<and> token (fetchCurrentUser get_me s) = None
        \<and> user (fetchCurrentUser get_me s) = None
        \<and> authorization (fetchCurrentUser get_me s) = None)"
  by (simp add: fetchCurrentUser_def logout_def)

theorem failed_me_logs_out_witness:
  "fetchCurrentUser (\<lambda>h. Rejected network_error) session0 =
     \<lparr>localStorage_token = None, token = None, user = None, authorization = None,
      loading = False\<rparr>
   \<and> logout session0 =
     \<lparr>localStorage_token = None, token = None, user = None, authorization = None,
      loading = True\<rparr>"
  using failed_me_logs_out [of "\<lambda>h. Rejected network_error" session0 network_error]
  by (simp add: session0_def logout_def)

text \<open>
  Claim C10. A \<open>login\<close> or \<open>register\<close> call that fails leaves the session state as it
  was: stored token, \<open>token\<close>, \<open>user\<close> and header keep their values. The state
  changes only when the backend call succeeded.
\<close>

theorem failed_auth_keeps_session:
  "(post_login e p = Rejected err \<longrightarrow> snd (login post_login e p s) = s)
   \<and> (post_register form = Rejected err \<longrightarrow> snd (register post_register form s) = s)
   \<and> (\<not> success (fst (login post_login e p s)) \<longrightarrow> snd (login post_login e p s) = s)
   \<and> (\<not> success (fst (register post_register form s)) \<longrightarrow>
        snd (register post_register form s) = s)
   \<and> (snd (login post_login e p s) \<noteq> s \<longrightarrow> (\<exists>d. post_login e p = Resolved d))
   \<and> (snd (register post_register form s) \<noteq> s \<longrightarrow> (\<exists>d. post_register form = Resolved d))"
  by (auto simp: login_def register_def split: reply.splits)

theorem failed_auth_keeps_session_witness:
  "snd (login (\<lambda>e p. Rejected (with_detail ''Invalid credentials'')) ''a@example.com'' ''pw'' session0)
     = session0
   \<and> snd (register (\<lambda>f. Rejected network_error) userC session0) = session0
   \<and> snd (login (\<lambda>e p. Resolved auth1) ''a@example.com'' ''pw'' session0) =
       \<lparr>localStorage_token = Some ''tok'', token = Some ''tok'', user = Some userC,
        authorization = Some ''Bearer tok'', loading = True\<rparr>
   \<and> snd (register (\<lambda>f. Resolved auth1) userC session0) =
       \<lparr>localStorage_token = Some ''tok'', token = Some ''tok'', user = Some userC,
        authorization = Some ''Bearer tok'', loading = True\<rparr>"
  using
    failed_auth_keeps_session [where post_login = "\<lambda>e p. Rejected (with_detail ''Invalid credentials'')"
      and e = "''a@example.com''" and p = "''pw''" and s = session0
      and err = "with_detail ''Invalid credentials''" and form = userC
      and post_register = "\<lambda>f. Rejected (with_detail ''Invalid credentials'')"]
    failed_auth_keeps_session [where post_login = "\<lambda>e p. Rejected network_error"
      and e = "''a@example.com''" and p = "''pw''" and s = session0
      and err = network_error and form = userC
      and post_register = "\<lambda>f. Rejected network_error"]
    failed_auth_keeps_session [where post_login = "\<lambda>e p. Resolved auth1"
      and e = "''a@example.com''" and p = "''pw''" and s = session0
      and err = network_error and form = userC
      and post_register = "\<lambda>f. Resolved auth1"]
  by (simp add: login_def register_def session0_def auth1_def)

end
